theory Spec2Isabelle
  imports Main "HOL-Library.AList" "HOL-Library.Sublist"
begin

section \<open>Text\<close>

text \<open>
  A Python \<open>str\<close> is modelled as a \<open>string\<close> holding the UTF-8 bytes of the text, and
  a \<open>bytes\<close> payload as the \<open>string\<close> of its bytes.  Searching for an ASCII
  substring, splitting on one and comparing with one give the same answer on the UTF-8
  bytes as on the code points, because no byte of a multi-byte sequence is below 128.
  The methods that consult the Unicode tables (\<open>strip\<close>, \<open>lower\<close>, \<open>isdigit\<close>) and
  the conversions \<open>int()\<close> and \<open>float()\<close> are modelled on ASCII text, where they are
  exact: a byte of 128 or more is taken to be neither white space nor a digit and to
  have no lower-case form, which is not what Python does with, say, a no-break space
  or a superscript digit.  The delimited wire format is ASCII text, and the theorems
  below on what the parser of that format stores or rejects carry the hypothesis that
  the payload is ASCII (\<open>is_ascii\<close>).
\<close>

text \<open>\<open>s.isascii()\<close>\<close>

definition is_ascii :: "string \<Rightarrow> bool" where
  "is_ascii s = list_all (\<lambda>c. (of_char c :: int) < 128) s"

definition startswith :: "string \<Rightarrow> string \<Rightarrow> bool" where
  "startswith s p = prefix p s"

text \<open>\<open>sub in s\<close>\<close>

fun str_contains :: "string \<Rightarrow> string \<Rightarrow> bool" where
  "str_contains sub [] = (sub = [])"
| "str_contains sub (c # cs) = (prefix sub (c # cs) \<or> str_contains sub cs)"

section \<open>Topic resolver: \<open>MQTTReceiver.extract_device_id\<close>\<close>

text \<open>
  \<open>re.search(r'sleep_blanket/([^/]+)/data', topic)\<close> tries the pattern at every position
  of the topic, from the left.  At one position the pattern needs the literal
  \<open>sleep_blanket/\<close>, then a non-empty run of characters other than \<open>/\<close>, then the
  literal \<open>/data\<close>.  The literal after the group starts with \<open>/\<close>, which the group
  cannot hold, so the group is the whole run up to the next \<open>/\<close> and no backtracking
  changes it.  \<open>match_at\<close> returns group 1.
\<close>

definition match_at :: "string \<Rightarrow> string option" where
  "match_at s =
     (if prefix ''sleep_blanket/'' s then
        (let rest = drop (length ''sleep_blanket/'') s;
             seg = takeWhile (\<lambda>c. c \<noteq> CHR ''/'') rest;
             after = dropWhile (\<lambda>c. c \<noteq> CHR ''/'') rest
         in if seg \<noteq> [] \<and> prefix ''/data'' after then Some seg else None)
      else None)"

fun re_search :: "string \<Rightarrow> string option" where
  "re_search [] = match_at []"
| "re_search (c # cs) =
     (case match_at (c # cs) of Some g \<Rightarrow> Some g | None \<Rightarrow> re_search cs)"

definition extract_device_id :: "string \<Rightarrow> string option" where
  "extract_device_id topic =
     (case re_search topic of
        Some g \<Rightarrow> Some g
      | None \<Rightarrow>
          if str_contains ''device/sleep_blanket'' topic then Some ''GENERAL_DEVICE''
          else if str_contains ''sensors/sleep_monitor'' topic then Some ''MONITOR_SENSOR''
          else None)"

text \<open>
  The first rule of the resolver read on the whole topic: the topic is
  \<open>sleep_blanket/\<close>, one segment that is not empty and holds no \<open>/\<close>, and \<open>/data\<close>, with
  nothing before or after.
\<close>

definition topic_has_form :: "string \<Rightarrow> bool" where
  "topic_has_form topic =
     (case match_at topic of
        Some seg \<Rightarrow> topic = ''sleep_blanket/'' @ seg @ ''/data''
      | None \<Rightarrow> False)"

section \<open>Exceptions\<close>

text \<open>
  The exceptions the handler's code can raise.  All of them derive from \<open>Exception\<close>
  except \<open>KeyboardInterrupt\<close>, which an \<open>except Exception\<close> clause lets through.
  \<open>OSError\<close> stands for what a failing \<open>print()\<close> raises (an \<open>OSError\<close> such as a
  broken pipe, or a \<open>UnicodeEncodeError\<close>; both are \<open>Exception\<close>s).
\<close>

datatype exn =
    UnicodeDecodeError
  | ValueError
  | JSONDecodeError
  | TypeError
  | OSError
  | KeyboardInterrupt

fun isinstance_Exception :: "exn \<Rightarrow> bool" where
  "isinstance_Exception KeyboardInterrupt = False"
| "isinstance_Exception _ = True"

section \<open>Decoding the payload\<close>

text \<open>
  \<open>msg.payload.decode('utf-8')\<close> is strict: it raises \<open>UnicodeDecodeError\<close> on a byte
  sequence that is not well-formed UTF-8 (a stray continuation byte, a truncated or
  overlong sequence, a surrogate, a code point above U+10FFFF).
\<close>

definition continuation :: "int \<Rightarrow> bool" where
  "continuation b = (128 \<le> b \<and> b < 192)"

fun utf8_valid :: "int list \<Rightarrow> bool" where
  "utf8_valid [] = True"
| "utf8_valid (b0 # bs) =
     (if b0 < 128 then utf8_valid bs
      else if 194 \<le> b0 \<and> b0 < 224 then
        (case bs of b1 # r \<Rightarrow> continuation b1 \<and> utf8_valid r | _ \<Rightarrow> False)
      else if 224 \<le> b0 \<and> b0 < 240 then
        (case bs of
           b1 # b2 # r \<Rightarrow>
             (if b0 = 224 then 160 else 128) \<le> b1 \<and> b1 < (if b0 = 237 then 160 else 192)
             \<and> continuation b2 \<and> utf8_valid r
         | _ \<Rightarrow> False)
      else if 240 \<le> b0 \<and> b0 < 245 then
        (case bs of
           b1 # b2 # b3 # r \<Rightarrow>
             (if b0 = 240 then 144 else 128) \<le> b1 \<and> b1 < (if b0 = 244 then 144 else 192)
             \<and> continuation b2 \<and> continuation b3 \<and> utf8_valid r
         | _ \<Rightarrow> False)
      else False)"

definition decode_utf8 :: "string \<Rightarrow> exn + string" where
  "decode_utf8 bs = (if utf8_valid (map of_char bs) then Inr bs else Inl UnicodeDecodeError)"

section \<open>String methods\<close>

definition is_space :: "char \<Rightarrow> bool" where
  "is_space c = (let n = (of_char c :: int) in (9 \<le> n \<and> n \<le> 13) \<or> (28 \<le> n \<and> n \<le> 32))"

definition is_digit :: "char \<Rightarrow> bool" where
  "is_digit c = (let n = (of_char c :: int) in 48 \<le> n \<and> n \<le> 57)"

definition digit_value :: "char \<Rightarrow> int" where
  "digit_value c = of_char c - 48"

definition lower_char :: "char \<Rightarrow> char" where
  "lower_char c = (let n = (of_char c :: int) in if 65 \<le> n \<and> n \<le> 90 then char_of (n + 32) else c)"

definition strip :: "string \<Rightarrow> string" where
  "strip s = rev (dropWhile is_space (rev (dropWhile is_space s)))"

definition lower :: "string \<Rightarrow> string" where
  "lower s = map lower_char s"

definition isdigit :: "string \<Rightarrow> bool" where
  "isdigit s = (s \<noteq> [] \<and> list_all is_digit s)"

text \<open>\<open>s.replace(c, '')\<close> for a single character \<open>c\<close>\<close>

definition remove_char :: "char \<Rightarrow> string \<Rightarrow> string" where
  "remove_char c s = filter (\<lambda>x. x \<noteq> c) s"

text \<open>\<open>s.split(sep)\<close> for a separator that is not empty\<close>

function split_on :: "string \<Rightarrow> string \<Rightarrow> string \<Rightarrow> string list" where
  "split_on sep cur [] = [cur]"
| "split_on sep cur (c # cs) =
     (if sep \<noteq> [] \<and> prefix sep (c # cs)
      then cur # split_on sep [] (drop (length sep - 1) cs)
      else split_on sep (cur @ [c]) cs)"
  by pat_completeness auto
termination
  by (relation "measure (\<lambda>(sep, cur, s). length s)") auto

definition split :: "string \<Rightarrow> string \<Rightarrow> string list" where
  "split s sep = split_on sep [] s"

section \<open>Python values\<close>

text \<open>
  The values a record's field can hold.  A \<open>float\<close> is modelled by the exact decimal
  value of its literal: \<open>PFloat m e\<close> stands for \<open>m * 10 ^ e\<close>, and the three special
  values are apart (\<open>PInf True\<close> is the positive infinity); rounding to a double is
  not modelled.  A \<open>datetime\<close> is a number of seconds.
\<close>

datatype pyval =
    PNone
  | PBool bool
  | PInt int
  | PFloat int int
  | PNaN
  | PInf bool
  | PStr string
  | PList "pyval list"
  | PDict "(string \<times> pyval) list"
  | PDatetime int

type_synonym dict = "(string \<times> pyval) list"

text \<open>\<open>bool(v)\<close>, as \<open>if not v\<close> tests it\<close>

fun truthy :: "pyval \<Rightarrow> bool" where
  "truthy PNone = False"
| "truthy (PBool b) = b"
| "truthy (PInt i) = (i \<noteq> 0)"
| "truthy (PFloat m e) = (m \<noteq> 0)"
| "truthy PNaN = True"
| "truthy (PInf _) = True"
| "truthy (PStr s) = (s \<noteq> [])"
| "truthy (PList xs) = (xs \<noteq> [])"
| "truthy (PDict d) = (d \<noteq> [])"
| "truthy (PDatetime _) = True"

text \<open>\<open>v == 1\<close>: \<open>True\<close> and \<open>1.0\<close> are equal to \<open>1\<close> in Python\<close>

fun equals_one :: "pyval \<Rightarrow> bool" where
  "equals_one (PInt i) = (i = 1)"
| "equals_one (PBool b) = b"
| "equals_one (PFloat m e) = (if 0 \<le> e then m * 10 ^ nat e = 1 else m = 10 ^ nat (- e))"
| "equals_one _ = False"

text \<open>\<open>d.get(k)\<close> and \<open>d.get(k, default)\<close>\<close>

definition dict_get :: "dict \<Rightarrow> string \<Rightarrow> pyval" where
  "dict_get d k = (case map_of d k of None \<Rightarrow> PNone | Some v \<Rightarrow> v)"

definition dict_get_default :: "dict \<Rightarrow> string \<Rightarrow> pyval \<Rightarrow> pyval" where
  "dict_get_default d k dflt = (case map_of d k of None \<Rightarrow> dflt | Some v \<Rightarrow> v)"

section \<open>Numeric literals: \<open>int()\<close> and \<open>float()\<close>\<close>

text \<open>
  Both strip surrounding white space, take an optional sign and accept single
  underscores between digits.  \<open>int()\<close> raises \<open>ValueError\<close> on a literal of more than
  4300 digits (CPython's default \<open>max_str_digits\<close>); \<open>float()\<close> has no such limit.
\<close>

definition max_str_digits :: int where
  "max_str_digits = 4300"

fun digits_tail :: "string \<Rightarrow> bool" where
  "digits_tail [] = True"
| "digits_tail (c # cs) =
     (if is_digit c then digits_tail cs
      else if c = CHR ''_'' then (case cs of d # r \<Rightarrow> is_digit d \<and> digits_tail r | [] \<Rightarrow> False)
      else False)"

definition digitpart :: "string \<Rightarrow> bool" where
  "digitpart s = (case s of c # cs \<Rightarrow> is_digit c \<and> digits_tail cs | [] \<Rightarrow> False)"

definition digits_number :: "string \<Rightarrow> int" where
  "digits_number s = foldl (\<lambda>n c. 10 * n + digit_value c) 0 (filter is_digit s)"

definition split_sign :: "string \<Rightarrow> bool \<times> string" where
  "split_sign s =
     (case s of
        c # cs \<Rightarrow> if c = CHR ''-'' then (True, cs) else if c = CHR ''+'' then (False, cs) else (False, s)
      | [] \<Rightarrow> (False, s))"

definition py_int :: "string \<Rightarrow> exn + int" where
  "py_int s =
     (let (neg, body) = split_sign (strip s)
      in if digitpart body \<and> int (length (filter is_digit body)) \<le> max_str_digits
         then Inr (if neg then - digits_number body else digits_number body)
         else Inl ValueError)"

definition is_exp_char :: "char \<Rightarrow> bool" where
  "is_exp_char c = (c = CHR ''e'' \<or> c = CHR ''E'')"

definition py_float :: "string \<Rightarrow> exn + pyval" where
  "py_float s =
     (let (neg, body) = split_sign (strip s)
      in if lower body = ''inf'' \<or> lower body = ''infinity'' then Inr (PInf (\<not> neg))
         else if lower body = ''nan'' then Inr PNaN
         else
           (let mant = takeWhile (\<lambda>c. \<not> is_exp_char c) body;
                ex = dropWhile (\<lambda>c. \<not> is_exp_char c) body;
                ip = takeWhile (\<lambda>c. c \<noteq> CHR ''.'') mant;
                dot = dropWhile (\<lambda>c. c \<noteq> CHR ''.'') mant;
                fp = tl dot;
                (eneg, ebody) = split_sign (tl ex);
                mant_ok =
                  (if dot = [] then digitpart ip
                   else (ip = [] \<or> digitpart ip) \<and> (fp = [] \<or> digitpart fp)
                        \<and> \<not> (ip = [] \<and> fp = []));
                ex_ok = (ex = [] \<or> digitpart ebody);
                e = (if ex = [] then 0
                     else if eneg then - digits_number ebody else digits_number ebody);
                m = digits_number (ip @ fp)
            in if mant_ok \<and> ex_ok
               then Inr (PFloat (if neg then - m else m) (e - int (length (filter is_digit fp))))
               else Inl ValueError))"

section \<open>The structured format: \<open>json.loads\<close>\<close>

text \<open>
  \<open>json.loads\<close> belongs to the standard library, not to this repository.  It is
  modelled from the grammar it accepts: white space is space, tab, line feed and
  carriage return; the literals are \<open>null\<close>, \<open>true\<close>, \<open>false\<close>, \<open>NaN\<close>, \<open>Infinity\<close> and
  \<open>-Infinity\<close>; a number without fraction and exponent is an \<open>int\<close>, any other a
  \<open>float\<close>; a string must not hold a raw control character; a key met twice keeps
  its first place and its last value; anything after the document is an error.  Every
  failure is a \<open>JSONDecodeError\<close> (a \<open>ValueError\<close>).  The interpreter's recursion limit
  is not modelled.
\<close>

definition quote :: char where
  "quote = CHR 0x22"

definition backslash :: char where
  "backslash = CHR 0x5C"

definition hex_value :: "char \<Rightarrow> int option" where
  "hex_value c =
     (let n = (of_char c :: int)
      in if 48 \<le> n \<and> n \<le> 57 then Some (n - 48)
         else if 65 \<le> n \<and> n \<le> 70 then Some (n - 55)
         else if 97 \<le> n \<and> n \<le> 102 then Some (n - 87)
         else None)"

definition hex4 :: "string \<Rightarrow> int option" where
  "hex4 s =
     (case map hex_value (take 4 s) of
        [Some a, Some b, Some c, Some d] \<Rightarrow> Some (((a * 16 + b) * 16 + c) * 16 + d)
      | _ \<Rightarrow> None)"

text \<open>
  The UTF-8 bytes of a code point.  An escape may name a lone surrogate, which Python
  keeps in the \<open>str\<close>; it gets the three bytes the same scheme gives it.
\<close>

definition utf8_encode :: "int \<Rightarrow> string" where
  "utf8_encode cp =
     (if cp < 128 then [char_of cp]
      else if cp < 2048 then [char_of (192 + cp div 64), char_of (128 + cp mod 64)]
      else if cp < 65536 then
        [char_of (224 + cp div 4096), char_of (128 + cp div 64 mod 64), char_of (128 + cp mod 64)]
      else
        [char_of (240 + cp div 262144), char_of (128 + cp div 4096 mod 64),
         char_of (128 + cp div 64 mod 64), char_of (128 + cp mod 64)])"

text \<open>
  The text after \<open>\u\<close>: the bytes of the character and the number of characters read.
  A high surrogate followed by an escaped low surrogate is one character.
\<close>

definition unicode_escape :: "string \<Rightarrow> (string \<times> nat) option" where
  "unicode_escape r =
     (case hex4 r of
        None \<Rightarrow> None
      | Some u \<Rightarrow>
          if 55296 \<le> u \<and> u \<le> 56319 \<and> take 2 (drop 4 r) = [backslash, CHR ''u''] then
            (case hex4 (drop 6 r) of
               None \<Rightarrow> None
             | Some u2 \<Rightarrow>
                 if 56320 \<le> u2 \<and> u2 \<le> 57343
                 then Some (utf8_encode (65536 + (u - 55296) * 1024 + (u2 - 56320)), 10)
                 else Some (utf8_encode u, 4))
          else Some (utf8_encode u, 4))"

definition simple_escape :: "char \<Rightarrow> char option" where
  "simple_escape e =
     (if e = quote \<or> e = backslash \<or> e = CHR ''/'' then Some e
      else if e = CHR ''b'' then Some (CHR 0x08)
      else if e = CHR ''f'' then Some (CHR 0x0C)
      else if e = CHR ''n'' then Some (CHR 0x0A)
      else if e = CHR ''r'' then Some (CHR 0x0D)
      else if e = CHR ''t'' then Some (CHR 0x09)
      else None)"

text \<open>
  The text after an opening quote: the string's content and the number of characters
  read, closing quote included.
\<close>

function scanstring :: "string \<Rightarrow> nat \<Rightarrow> string \<Rightarrow> (string \<times> nat) option" where
  "scanstring acc n [] = None"
| "scanstring acc n (c # cs) =
     (if c = quote then Some (acc, Suc n)
      else if c = backslash then
        (case cs of
           [] \<Rightarrow> None
         | e # r \<Rightarrow>
             if e = CHR ''u'' then
               (case unicode_escape r of
                  None \<Rightarrow> None
                | Some (bytes, k) \<Rightarrow> scanstring (acc @ bytes) (n + 2 + k) (drop k r))
             else
               (case simple_escape e of
                  None \<Rightarrow> None
                | Some ch \<Rightarrow> scanstring (acc @ [ch]) (n + 2) r))
      else if (of_char c :: int) < 32 then None
      else scanstring (acc @ [c]) (Suc n) cs)"
  by pat_completeness auto
termination
  by (relation "measure (\<lambda>(acc, n, s). length s)") auto

definition json_space :: "char \<Rightarrow> bool" where
  "json_space c = (c = CHR '' '' \<or> c = CHR 0x09 \<or> c = CHR 0x0A \<or> c = CHR 0x0D)"

text \<open>The characters of a number or a literal\<close>

definition is_word :: "char \<Rightarrow> bool" where
  "is_word c =
     (let n = (of_char c :: int)
      in (48 \<le> n \<and> n \<le> 57) \<or> (65 \<le> n \<and> n \<le> 90) \<or> (97 \<le> n \<and> n \<le> 122)
         \<or> c = CHR ''+'' \<or> c = CHR ''-'' \<or> c = CHR ''.'')"

text \<open>
  A number is \<open>-?(0|[1-9][0-9]*)(\.[0-9]+)?([eE][-+]?[0-9]+)?\<close>; the result says whether
  it has a fraction or an exponent.
\<close>

definition json_number :: "string \<Rightarrow> bool option" where
  "json_number w =
     (let body = (case w of c # r \<Rightarrow> if c = CHR ''-'' then r else w | [] \<Rightarrow> w);
          ip = takeWhile is_digit body;
          r1 = dropWhile is_digit body;
          has_frac = (case r1 of c # r \<Rightarrow> c = CHR ''.'' | [] \<Rightarrow> False);
          fr = (if has_frac then takeWhile is_digit (tl r1) else []);
          r2 = (if has_frac then dropWhile is_digit (tl r1) else r1);
          has_exp = (case r2 of c # r \<Rightarrow> is_exp_char c | [] \<Rightarrow> False);
          r3 = (case tl r2 of d # r \<Rightarrow> if d = CHR ''+'' \<or> d = CHR ''-'' then r else tl r2
                | [] \<Rightarrow> []);
          ok_int = (if take 1 ip = ''0'' then ip = ''0'' else ip \<noteq> []);
          ok_frac = (if has_frac then fr \<noteq> [] else True);
          ok_exp = (if has_exp then isdigit r3 else r2 = [])
      in if ok_int \<and> ok_frac \<and> ok_exp then Some (has_frac \<or> has_exp) else None)"

definition word_value :: "string \<Rightarrow> pyval option" where
  "word_value w =
     (if w = ''null'' then Some PNone
      else if w = ''true'' then Some (PBool True)
      else if w = ''false'' then Some (PBool False)
      else if w = ''NaN'' then Some PNaN
      else if w = ''Infinity'' then Some (PInf True)
      else if w = ''-Infinity'' then Some (PInf False)
      else
        (case json_number w of
           None \<Rightarrow> None
         | Some is_float \<Rightarrow>
             if is_float then (case py_float w of Inr v \<Rightarrow> Some v | Inl e \<Rightarrow> None)
             else (case py_int w of Inr i \<Rightarrow> Some (PInt i) | Inl e \<Rightarrow> None)))"

datatype token =
    LBrace | RBrace | LBracket | RBracket | Colon | Comma
  | StringTok string
  | ValueTok pyval

definition punctuation :: "char \<Rightarrow> token option" where
  "punctuation c =
     (if c = CHR ''{'' then Some LBrace
      else if c = CHR ''}'' then Some RBrace
      else if c = CHR ''['' then Some LBracket
      else if c = CHR '']'' then Some RBracket
      else if c = CHR '':'' then Some Colon
      else if c = CHR '','' then Some Comma
      else None)"

function lex :: "string \<Rightarrow> token list option" where
  "lex [] = Some []"
| "lex (c # cs) =
     (if json_space c then lex cs
      else if punctuation c \<noteq> None then map_option (Cons (the (punctuation c))) (lex cs)
      else if c = quote then
        (case scanstring [] 0 cs of
           None \<Rightarrow> None
         | Some (str, n) \<Rightarrow> map_option (Cons (StringTok str)) (lex (drop n cs)))
      else if is_word c then
        (case word_value (c # takeWhile is_word cs) of
           None \<Rightarrow> None
         | Some v \<Rightarrow> map_option (Cons (ValueTok v)) (lex (dropWhile is_word cs)))
      else None)"
  by pat_completeness auto
termination
  by (relation "measure length") (auto simp: length_dropWhile_le less_Suc_eq_le)

text \<open>
  The tokens drive a stack of the arrays and objects that are still open; an object
  that has read a key holds it until the value arrives.
\<close>

datatype frame =
    ArrayFrame "pyval list"
  | ObjectFrame dict "string option"

datatype expect =
    Value | ValueOrEnd | Key | KeyOrEnd | ColonNext | CommaOrEnd
  | Finished pyval

fun put_value :: "pyval \<Rightarrow> frame list \<Rightarrow> (frame list \<times> expect) option" where
  "put_value v [] = Some ([], Finished v)"
| "put_value v (ArrayFrame items # st) = Some (ArrayFrame (items @ [v]) # st, CommaOrEnd)"
| "put_value v (ObjectFrame d (Some k) # st) =
     Some (ObjectFrame (AList.update k v d) None # st, CommaOrEnd)"
| "put_value v (ObjectFrame d None # st) = None"

definition open_or_value :: "frame list \<Rightarrow> token \<Rightarrow> (frame list \<times> expect) option" where
  "open_or_value st tok =
     (case tok of
        StringTok str \<Rightarrow> put_value (PStr str) st
      | ValueTok v \<Rightarrow> put_value v st
      | LBracket \<Rightarrow> Some (ArrayFrame [] # st, ValueOrEnd)
      | LBrace \<Rightarrow> Some (ObjectFrame [] None # st, KeyOrEnd)
      | _ \<Rightarrow> None)"

definition close_array :: "frame list \<Rightarrow> (frame list \<times> expect) option" where
  "close_array st =
     (case st of ArrayFrame items # st' \<Rightarrow> put_value (PList items) st' | _ \<Rightarrow> None)"

definition close_object :: "frame list \<Rightarrow> (frame list \<times> expect) option" where
  "close_object st =
     (case st of ObjectFrame d None # st' \<Rightarrow> put_value (PDict d) st' | _ \<Rightarrow> None)"

definition take_key :: "string \<Rightarrow> frame list \<Rightarrow> (frame list \<times> expect) option" where
  "take_key k st =
     (case st of
        ObjectFrame d None # st' \<Rightarrow> Some (ObjectFrame d (Some k) # st', ColonNext)
      | _ \<Rightarrow> None)"

definition json_step :: "frame list \<times> expect \<Rightarrow> token \<Rightarrow> (frame list \<times> expect) option" where
  "json_step s tok =
     (case s of (st, ex) \<Rightarrow>
        (case ex of
           Value \<Rightarrow> open_or_value st tok
         | ValueOrEnd \<Rightarrow> (case tok of RBracket \<Rightarrow> close_array st | _ \<Rightarrow> open_or_value st tok)
         | Key \<Rightarrow> (case tok of StringTok k \<Rightarrow> take_key k st | _ \<Rightarrow> None)
         | KeyOrEnd \<Rightarrow>
             (case tok of
                StringTok k \<Rightarrow> take_key k st
              | RBrace \<Rightarrow> close_object st
              | _ \<Rightarrow> None)
         | ColonNext \<Rightarrow> (case tok of Colon \<Rightarrow> Some (st, Value) | _ \<Rightarrow> None)
         | CommaOrEnd \<Rightarrow>
             (case tok of
                Comma \<Rightarrow>
                  (case st of
                     ArrayFrame items # st' \<Rightarrow> Some (st, Value)
                   | ObjectFrame d k # st' \<Rightarrow> Some (st, Key)
                   | [] \<Rightarrow> None)
              | RBracket \<Rightarrow> close_array st
              | RBrace \<Rightarrow> close_object st
              | _ \<Rightarrow> None)
         | Finished v \<Rightarrow> None))"

fun json_run :: "frame list \<times> expect \<Rightarrow> token list \<Rightarrow> pyval option" where
  "json_run s [] = (case snd s of Finished v \<Rightarrow> Some v | _ \<Rightarrow> None)"
| "json_run s (tok # toks) =
     (case json_step s tok of None \<Rightarrow> None | Some s' \<Rightarrow> json_run s' toks)"

definition json_loads :: "string \<Rightarrow> exn + pyval" where
  "json_loads s =
     (case lex s of
        None \<Rightarrow> Inl JSONDecodeError
      | Some toks \<Rightarrow>
          (case json_run ([], Value) toks of
             None \<Rightarrow> Inl JSONDecodeError
           | Some v \<Rightarrow> Inr v))"

section \<open>The receiver\<close>

text \<open>\<open>alarm_config.ALARM_CONFIG\<close>\<close>

record AlarmConfig =
  enable_connection_lost_alarm :: bool
  enable_device_alarm :: bool
  console_output :: bool
  silent_mode :: bool
  min_alarm_level :: string
  connection_lost_cooldown :: int
  device_alarm_cooldown :: int
  ignored_devices :: "string list"

definition ALARM_CONFIG :: AlarmConfig where
  "ALARM_CONFIG =
     \<lparr> enable_connection_lost_alarm = False,
       enable_device_alarm = True,
       console_output = False,
       silent_mode = True,
       min_alarm_level = ''MEDIUM'',
       connection_lost_cooldown = 300,
       device_alarm_cooldown = 60,
       ignored_devices = [''SB067''] \<rparr>"

text \<open>\<open>self.stats\<close>; times are seconds\<close>

record Stats =
  total_received :: int
  total_processed :: int
  total_errors :: int
  start_time :: int
  last_message_time :: "int option"

text \<open>
  What the logger is given, by level, and what is printed to the console.  The message
  texts are abstracted to the event they report and the values they embed.
\<close>

datatype level = DEBUG | INFO | WARNING | ERROR

datatype event =
    MessageReceived string string
  | NoDeviceId string
  | ParseFailed string
  | ParseError exn
  | DataStored string
  | StoreFailed string
  | HandleFailed exn
  | AlarmTriggered string
  | RowSaved string
  | InsertFailed

text \<open>The \<open>values\<close> tuple of \<open>insert_device_data\<close>: one row of \<open>device_data\<close>\<close>

record Row =
  col_device_id :: string
  col_raw_value :: pyval
  col_rms_value :: pyval
  col_threshold_value :: pyval
  col_state :: pyval
  col_movement_count :: pyval
  col_is_connected :: pyval
  col_is_alarm :: pyval
  col_timestamp :: pyval

text \<open>
  The receiver with what it owns and what it writes to: its policy, its counters, the
  log, the console, the calls it made to the storage sink and the rows the database
  took.  Writing to the log never raises (the \<open>logging\<close> module handles the errors of
  its handlers itself); \<open>print()\<close> can raise.
\<close>

record MQTTReceiver =
  alarm_config :: AlarmConfig
  stats :: Stats
  logged :: "(level \<times> event) list"
  console :: "event list"
  insert_calls :: "(string \<times> dict) list"
  device_data :: "Row list"

text \<open>\<open>MQTTReceiver.__init__\<close>, as far as the handler's state goes\<close>

definition init :: "AlarmConfig \<Rightarrow> int \<Rightarrow> MQTTReceiver" where
  "init cfg now =
     \<lparr> alarm_config = cfg,
       stats = \<lparr> total_received = 0, total_processed = 0, total_errors = 0,
                 start_time = now, last_message_time = None \<rparr>,
       logged = [],
       console = [],
       insert_calls = [],
       device_data = [] \<rparr>"

definition log_event :: "level \<Rightarrow> event \<Rightarrow> MQTTReceiver \<Rightarrow> MQTTReceiver" where
  "log_event lvl ev self = self\<lparr>logged := logged self @ [(lvl, ev)]\<rparr>"

text \<open>A message as the transport hands it over\<close>

record Message =
  msg_topic :: string
  msg_payload :: string

text \<open>
  What the surroundings answer while one message is handled: the clock at each
  \<open>datetime.now()\<close>, whether the database runs the \<open>INSERT\<close> without raising, and
  whether \<open>print()\<close> writes to the console without raising.
\<close>

record Environment =
  now_received :: int
  now_stamped :: int
  now_inserted :: int
  execute_succeeds :: bool
  print_succeeds :: bool

section \<open>Wire format parser: \<open>MQTTReceiver.parse_data\<close>\<close>

text \<open>
  \<open>part.split(':', 1)\<close> for a part that holds a colon, then \<open>key.strip().lower()\<close> and
  \<open>value.strip()\<close>
\<close>

definition split_once :: "string \<Rightarrow> string \<times> string" where
  "split_once part =
     (takeWhile (\<lambda>c. c \<noteq> CHR '':'') part, tl (dropWhile (\<lambda>c. c \<noteq> CHR '':'') part))"

definition token_key :: "string \<Rightarrow> string" where
  "token_key part = lower (strip (fst (split_once part)))"

definition token_value :: "string \<Rightarrow> string" where
  "token_value part = strip (snd (split_once part))"

text \<open>One turn of the loop over \<open>parts\<close>\<close>

definition parse_part :: "dict \<Rightarrow> string \<Rightarrow> exn + dict" where
  "parse_part data_dict part =
     (if CHR '':'' \<in> set part then
        (let key = token_key part;
             val = token_value part
         in
           if val = ''N/A'' then
             Inr (AList.update
                    (if key \<in> set [''raw'', ''rms'', ''th''] then key @ ''_value'' else key)
                    PNone data_dict)
           else if key = ''raw'' then
             (if isdigit val
              then (case py_int val of
                      Inl e \<Rightarrow> Inl e
                    | Inr i \<Rightarrow> Inr (AList.update ''raw_value'' (PInt i) data_dict))
              else Inr (AList.update ''raw_value'' PNone data_dict))
           else if key = ''rms'' then
             (if isdigit (remove_char CHR ''.'' val)
              then (case py_float val of
                      Inl e \<Rightarrow> Inl e
                    | Inr f \<Rightarrow> Inr (AList.update ''rms_value'' f data_dict))
              else Inr (AList.update ''rms_value'' PNone data_dict))
           else if key = ''th'' then
             (if isdigit (remove_char CHR ''.'' val)
              then (case py_float val of
                      Inl e \<Rightarrow> Inl e
                    | Inr f \<Rightarrow> Inr (AList.update ''threshold_value'' f data_dict))
              else Inr (AList.update ''threshold_value'' PNone data_dict))
           else if key = ''state'' then
             (if isdigit val
              then (case py_int val of
                      Inl e \<Rightarrow> Inl e
                    | Inr i \<Rightarrow> Inr (AList.update ''state'' (PInt i) data_dict))
              else Inr (AList.update ''state'' PNone data_dict))
           else if key = ''move'' then
             (if isdigit val
              then (case py_int val of
                      Inl e \<Rightarrow> Inl e
                    | Inr i \<Rightarrow> Inr (AList.update ''movement_count'' (PInt i) data_dict))
              else Inr (AList.update ''movement_count'' PNone data_dict))
           else if key = ''connected'' then
             (if isdigit val
              then (case py_int val of
                      Inl e \<Rightarrow> Inl e
                    | Inr i \<Rightarrow> Inr (AList.update ''is_connected'' (PInt i) data_dict))
              else Inr (AList.update ''is_connected'' (PInt 1) data_dict))
           else if key = ''alarm'' then
             (if isdigit val
              then (case py_int val of
                      Inl e \<Rightarrow> Inl e
                    | Inr i \<Rightarrow> Inr (AList.update ''is_alarm'' (PInt i) data_dict))
              else Inr (AList.update ''is_alarm'' (PInt 0) data_dict))
           else Inr data_dict)
      else Inr data_dict)"

fun parse_parts :: "dict \<Rightarrow> string list \<Rightarrow> exn + dict" where
  "parse_parts data_dict [] = Inr data_dict"
| "parse_parts data_dict (part # parts) =
     (case parse_part data_dict part of
        Inl e \<Rightarrow> Inl e
      | Inr d \<Rightarrow> parse_parts d parts)"

text \<open>The body of the \<open>try\<close>\<close>

definition parse_data_try :: "string \<Rightarrow> exn + pyval" where
  "parse_data_try text =
     (if startswith text ''{'' then json_loads text
      else (case parse_parts [] (split text '', '') of
              Inl e \<Rightarrow> Inl e
            | Inr d \<Rightarrow> Inr (PDict d)))"

text \<open>
  \<open>parse_data\<close>: what it returns (\<open>PNone\<close> where the \<open>except\<close> clause returns
  \<open>None\<close>), or the exception that its \<open>except Exception\<close> clause lets through.
\<close>

definition parse_data :: "MQTTReceiver \<Rightarrow> string \<Rightarrow> (exn + pyval) \<times> MQTTReceiver" where
  "parse_data self text =
     (case parse_data_try text of
        Inr v \<Rightarrow> (Inr v, self)
      | Inl e \<Rightarrow>
          if isinstance_Exception e then (Inr PNone, log_event ERROR (ParseError e) self)
          else (Inl e, self))"

section \<open>Storage sink: \<open>MySQLDataManager.insert_device_data\<close>\<close>

definition insert_values :: "Environment \<Rightarrow> string \<Rightarrow> dict \<Rightarrow> Row" where
  "insert_values env device_id data_dict =
     \<lparr> col_device_id = device_id,
       col_raw_value = dict_get data_dict ''raw_value'',
       col_rms_value = dict_get data_dict ''rms_value'',
       col_threshold_value = dict_get data_dict ''threshold_value'',
       col_state = dict_get data_dict ''state'',
       col_movement_count = dict_get data_dict ''movement_count'',
       col_is_connected = dict_get_default data_dict ''is_connected'' (PInt 1),
       col_is_alarm = dict_get_default data_dict ''is_alarm'' (PInt 0),
       col_timestamp = dict_get_default data_dict ''timestamp'' (PDatetime (now_inserted env)) \<rparr>"

text \<open>
  Whatever the cursor raises is caught inside and turned into \<open>False\<close>.
\<close>

definition insert_device_data ::
    "Environment \<Rightarrow> MQTTReceiver \<Rightarrow> string \<Rightarrow> dict \<Rightarrow> bool \<times> MQTTReceiver" where
  "insert_device_data env self device_id data_dict =
     (let called = self\<lparr>insert_calls := insert_calls self @ [(device_id, data_dict)]\<rparr>
      in if execute_succeeds env
         then (True,
               log_event DEBUG (RowSaved device_id)
                 (called\<lparr>device_data :=
                    device_data called @ [insert_values env device_id data_dict]\<rparr>))
         else (False, log_event ERROR InsertFailed called))"

section \<open>Alarm handling: \<open>MQTTReceiver.handle_alarm\<close>\<close>

text \<open>
  The exception that leaves \<open>handle_alarm\<close>, if any, and the receiver.  The function
  has no \<open>try\<close> of its own: when \<open>print()\<close> raises, the warning after it is not logged.
\<close>

definition handle_alarm ::
    "Environment \<Rightarrow> MQTTReceiver \<Rightarrow> string \<Rightarrow> dict \<Rightarrow> exn option \<times> MQTTReceiver" where
  "handle_alarm env self device_id data_dict =
     (if \<not> enable_device_alarm (alarm_config self) then (None, self)
      else if device_id \<in> set (ignored_devices (alarm_config self)) then (None, self)
      else if \<not> silent_mode (alarm_config self) then
        (if print_succeeds env
         then (None,
               log_event WARNING (AlarmTriggered device_id)
                 (self\<lparr>console := console self @ [AlarmTriggered device_id]\<rparr>))
         else (Some OSError, self))
      else (None, log_event WARNING (AlarmTriggered device_id) self))"

section \<open>Ingestion coordinator: \<open>MQTTReceiver.handle_message\<close>\<close>

definition count_received :: "int \<Rightarrow> MQTTReceiver \<Rightarrow> MQTTReceiver" where
  "count_received now self =
     self\<lparr>stats := (stats self)\<lparr>total_received := total_received (stats self) + 1,
                                 last_message_time := Some now\<rparr>\<rparr>"

definition count_processed :: "MQTTReceiver \<Rightarrow> MQTTReceiver" where
  "count_processed self =
     self\<lparr>stats := (stats self)\<lparr>total_processed := total_processed (stats self) + 1\<rparr>\<rparr>"

definition count_error :: "MQTTReceiver \<Rightarrow> MQTTReceiver" where
  "count_error self =
     self\<lparr>stats := (stats self)\<lparr>total_errors := total_errors (stats self) + 1\<rparr>\<rparr>"

text \<open>
  The statements after a successful parse: stamp the record, store it, count the
  outcome, check the alarm flag.  Assigning to \<open>data_dict['timestamp']\<close> raises
  \<open>TypeError\<close> when the parsed value is not a dictionary.  An exception of
  \<open>handle_alarm\<close> leaves these statements after the counters were updated.
\<close>

definition store_and_check ::
    "Environment \<Rightarrow> MQTTReceiver \<Rightarrow> string \<Rightarrow> pyval \<Rightarrow> exn option \<times> MQTTReceiver" where
  "store_and_check env self device_id parsed =
     (case parsed of
        PDict d \<Rightarrow>
          (let data_dict = AList.update ''timestamp'' (PDatetime (now_stamped env)) d;
               (ok, stored) = insert_device_data env self device_id data_dict;
               counted =
                 (if ok then log_event DEBUG (DataStored device_id) (count_processed stored)
                  else log_event ERROR (StoreFailed device_id) (count_error stored))
           in if equals_one (dict_get data_dict ''is_alarm'')
              then handle_alarm env counted device_id data_dict
              else (None, counted))
      | _ \<Rightarrow> (Some TypeError, self))"

text \<open>
  The body of the \<open>try\<close>: the exception it raises, if any, and the receiver as the
  statements before it left it.
\<close>

definition handle_message_try ::
    "Environment \<Rightarrow> MQTTReceiver \<Rightarrow> Message \<Rightarrow> exn option \<times> MQTTReceiver" where
  "handle_message_try env self msg =
     (let received = count_received (now_received env) self
      in case decode_utf8 (msg_payload msg) of
           Inl e \<Rightarrow> (Some e, received)
         | Inr text \<Rightarrow>
             (let seen = log_event DEBUG (MessageReceived (msg_topic msg) text) received
              in case extract_device_id (msg_topic msg) of
                   None \<Rightarrow> (None, log_event WARNING (NoDeviceId (msg_topic msg)) seen)
                 | Some device_id \<Rightarrow>
                     if device_id = [] then
                       (None, log_event WARNING (NoDeviceId (msg_topic msg)) seen)
                     else
                       (case parse_data seen text of
                          (Inl e, parsed_self) \<Rightarrow> (Some e, parsed_self)
                        | (Inr data_dict, parsed_self) \<Rightarrow>
                            if \<not> truthy data_dict
                            then (None, log_event WARNING (ParseFailed text) parsed_self)
                            else store_and_check env parsed_self device_id data_dict)))"

text \<open>
  \<open>handle_message\<close>: the \<open>try\<close> with its \<open>except Exception\<close> clause.  The first component
  is the exception that leaves the handler towards the transport, if any.
\<close>

definition handle_message ::
    "Environment \<Rightarrow> MQTTReceiver \<Rightarrow> Message \<Rightarrow> exn option \<times> MQTTReceiver" where
  "handle_message env self msg =
     (case handle_message_try env self msg of
        (None, after) \<Rightarrow> (None, after)
      | (Some e, after) \<Rightarrow>
          if isinstance_Exception e
          then (None, log_event ERROR (HandleFailed e) (count_error after))
          else (Some e, after))"

text \<open>
  The transport delivers the messages one at a time; an exception that leaves the
  handler ends the loop.
\<close>

fun deliver ::
    "MQTTReceiver \<Rightarrow> (Environment \<times> Message) list \<Rightarrow> exn option \<times> MQTTReceiver" where
  "deliver self [] = (None, self)"
| "deliver self ((env, msg) # rest) =
     (case handle_message env self msg of
        (None, after) \<Rightarrow> deliver after rest
      | (Some e, after) \<Rightarrow> (Some e, after))"

section \<open>Predicates used in the statements\<close>

text \<open>
  Between two readings of the counters nothing was received, and exactly one
  (\<open>counted_once\<close>) or at most one (\<open>counted_at_most_once\<close>) of \<open>total_processed\<close> and
  \<open>total_errors\<close> went up, by one.
\<close>

definition counted_once :: "Stats \<Rightarrow> Stats \<Rightarrow> bool" where
  "counted_once before after =
     (total_received after = total_received before
      \<and> (total_processed after = total_processed before + 1 \<and> total_errors after = total_errors before
         \<or> total_processed after = total_processed before \<and> total_errors after = total_errors before + 1))"

definition counted_at_most_once :: "Stats \<Rightarrow> Stats \<Rightarrow> bool" where
  "counted_at_most_once before after =
     (total_received after = total_received before
      \<and> (total_processed after = total_processed before \<and> total_errors after = total_errors before
         \<or> total_processed after = total_processed before + 1 \<and> total_errors after = total_errors before
         \<or> total_processed after = total_processed before \<and> total_errors after = total_errors before + 1))"

text \<open>The devices for which an alarm was raised, in order: the alarm warnings of the log\<close>

fun alarm_of :: "level \<times> event \<Rightarrow> string list" where
  "alarm_of (lvl, AlarmTriggered device_id) = [device_id]"
| "alarm_of (lvl, ev) = []"

definition raised_alarms :: "MQTTReceiver \<Rightarrow> string list" where
  "raised_alarms self = concat (map alarm_of (logged self))"

text \<open>
  Surroundings in which the clock reads \<open>t\<close>, the database takes the row and the
  console takes what is printed
\<close>

definition at_time :: "int \<Rightarrow> Environment" where
  "at_time t =
     \<lparr> now_received = t, now_stamped = t, now_inserted = t,
       execute_succeeds = True, print_succeeds = True \<rparr>"

text \<open>The console takes what is printed while each of the messages is handled\<close>

definition print_never_fails :: "(Environment \<times> Message) list \<Rightarrow> bool" where
  "print_never_fails msgs = list_all (\<lambda>m. print_succeeds (fst m)) msgs"

text \<open>
  The parse failed as \<open>handle_message\<close> sees it: \<open>parse_data\<close> returned \<open>None\<close> (an
  exception was caught) or a value that is false, such as the empty dictionary.
\<close>

definition parse_fails :: "string \<Rightarrow> bool" where
  "parse_fails payload_text =
     (case parse_data_try payload_text of Inl e \<Rightarrow> True | Inr v \<Rightarrow> \<not> truthy v)"





section \<open>What each step can raise\<close>

lemma decode_utf8_raises: "decode_utf8 bs = Inl e \<Longrightarrow> e = UnicodeDecodeError"
  by (simp add: decode_utf8_def split: if_splits)

lemma py_int_raises: "py_int s = Inl e \<Longrightarrow> e = ValueError"
  by (auto simp: py_int_def Let_def split: prod.splits if_splits)

lemma py_float_raises: "py_float s = Inl e \<Longrightarrow> e = ValueError"
  by (auto simp: py_float_def Let_def split: prod.splits if_splits)

lemma parse_part_raises: "parse_part d part = Inl e \<Longrightarrow> e = ValueError"
  unfolding parse_part_def Let_def
  by (auto split: if_splits sum.splits dest: py_int_raises py_float_raises)

lemma parse_parts_raises: "parse_parts d parts = Inl e \<Longrightarrow> e = ValueError"
  by (induction parts arbitrary: d) (auto split: sum.splits dest: parse_part_raises)

lemma json_loads_raises: "json_loads s = Inl e \<Longrightarrow> e = JSONDecodeError"
  by (auto simp: json_loads_def split: option.splits)

lemma parse_data_try_raises: "parse_data_try text = Inl e \<Longrightarrow> isinstance_Exception e"
  by (auto simp: parse_data_try_def split: if_splits sum.splits
      dest: json_loads_raises parse_parts_raises)

lemma parse_data_fst:
  "fst (parse_data self text) =
     (case parse_data_try text of Inl e \<Rightarrow> Inr PNone | Inr v \<Rightarrow> Inr v)"
  by (auto simp: parse_data_def split: sum.splits dest: parse_data_try_raises)

lemma parse_data_stats: "stats (snd (parse_data self text)) = stats self"
  by (auto simp: parse_data_def log_event_def split: sum.splits)

lemma parse_data_insert_calls: "insert_calls (snd (parse_data self text)) = insert_calls self"
  by (auto simp: parse_data_def log_event_def split: sum.splits)

lemma handle_alarm_raises:
  "fst (handle_alarm env self device_id d) = Some e \<Longrightarrow>
     e = OSError \<and> \<not> silent_mode (alarm_config self) \<and> \<not> print_succeeds env"
  by (auto simp: handle_alarm_def split: if_splits)

lemma store_and_check_raises:
  "fst (store_and_check env self device_id v) = Some e \<Longrightarrow> isinstance_Exception e"
  by (auto simp: store_and_check_def Let_def split: pyval.splits prod.splits if_splits
      dest: handle_alarm_raises)

lemma handle_message_try_raises:
  "fst (handle_message_try env self msg) = Some e \<Longrightarrow> isinstance_Exception e"
proof -
  assume a: "fst (handle_message_try env self msg) = Some e"
  show ?thesis
  proof (cases "decode_utf8 (msg_payload msg)")
    case (Inl x)
    with a show ?thesis by (auto simp: handle_message_try_def Let_def dest: decode_utf8_raises)
  next
    case (Inr decoded)
    define seen where "seen = log_event DEBUG (MessageReceived (msg_topic msg) decoded)
       (count_received (now_received env) self)"
    obtain r s where pd: "parse_data seen decoded = (r, s)" by (cases "parse_data seen decoded")
    have "fst (parse_data seen decoded) \<noteq> Inl e'" for e'
      by (simp add: parse_data_fst split: sum.splits)
    with pd obtain v where r: "r = Inr v" by (cases r) auto
    from a Inr pd r show ?thesis
      by (auto simp: handle_message_try_def Let_def seen_def
          split: option.splits if_splits dest!: store_and_check_raises)
  qed
qed

lemma handle_message_catches: "fst (handle_message env self msg) = None"
proof (cases "handle_message_try env self msg")
  case (Pair r after)
  show ?thesis
  proof (cases r)
    case None
    with Pair show ?thesis by (simp add: handle_message_def)
  next
    case (Some e)
    with Pair have "isinstance_Exception e"
      using handle_message_try_raises[of env self msg e] by simp
    with Pair Some show ?thesis by (simp add: handle_message_def)
  qed
qed

section \<open>The handler and the transport\<close>

text \<open>
  Claim C1.  For every incoming message, whatever its topic and the bytes of its
  payload (bytes that are not UTF-8, a payload on which parsing raises, a sink that
  fails), \<open>handle_message\<close> returns normally: no exception leaves it towards the
  transport.  The handler's \<open>except Exception\<close> clause lets through only what is not
  an \<open>Exception\<close>, and the body raises nothing of that kind.
\<close>

theorem handle_message_never_propagates: "fst (handle_message env self msg) = None"
proof (cases "handle_message_try env self msg")
  case (Pair raised after)
  show ?thesis
  proof (cases raised)
    case None
    with Pair show ?thesis by (simp add: handle_message_def)
  next
    case (Some e)
    with Pair have "fst (handle_message_try env self msg) = Some e" by simp
    then have "isinstance_Exception e" by (rule handle_message_try_raises)
    with Pair Some show ?thesis by (simp add: handle_message_def)
  qed
qed

section \<open>Counters\<close>

lemma stats_log_event: "stats (log_event lvl ev self) = stats self"
  by (simp add: log_event_def)

lemma alarm_config_log_event: "alarm_config (log_event lvl ev self) = alarm_config self"
  by (simp add: log_event_def)

lemma insert_device_data_stats:
  "stats (snd (insert_device_data env self device_id d)) = stats self"
  by (simp add: insert_device_data_def Let_def stats_log_event)

lemma insert_device_data_alarm_config:
  "alarm_config (snd (insert_device_data env self device_id d)) = alarm_config self"
  by (simp add: insert_device_data_def Let_def alarm_config_log_event)

lemma handle_alarm_stats: "stats (snd (handle_alarm env self device_id d)) = stats self"
  by (simp add: handle_alarm_def stats_log_event)

lemma handle_alarm_alarm_config:
  "alarm_config (snd (handle_alarm env self device_id d)) = alarm_config self"
  by (simp add: handle_alarm_def alarm_config_log_event)

lemma parse_data_alarm_config: "alarm_config (snd (parse_data self payload_text)) = alarm_config self"
  by (auto simp: parse_data_def log_event_def split: sum.splits)

lemma store_and_check_stats:
  "case store_and_check env self device_id v of
     (None, after) \<Rightarrow>
       counted_once (stats self) (stats after) \<and> alarm_config after = alarm_config self
   | (Some e, after) \<Rightarrow>
       alarm_config after = alarm_config self
       \<and> (stats after = stats self
          \<or> \<not> silent_mode (alarm_config self) \<and> \<not> print_succeeds env
            \<and> counted_once (stats self) (stats after))"
proof (cases v)
  case (PDict d)
  define dd where "dd = AList.update ''timestamp'' (PDatetime (now_stamped env)) d"
  obtain ok stored where ins: "insert_device_data env self device_id dd = (ok, stored)"
    by (cases "insert_device_data env self device_id dd")
  have st: "stats stored = stats self"
    using insert_device_data_stats[of env self device_id dd] ins by simp
  have ac: "alarm_config stored = alarm_config self"
    using insert_device_data_alarm_config[of env self device_id dd] ins by simp
  define counted where "counted =
     (if ok then log_event DEBUG (DataStored device_id) (count_processed stored)
      else log_event ERROR (StoreFailed device_id) (count_error stored))"
  have cs: "counted_once (stats self) (stats counted)"
    by (simp add: counted_def counted_once_def stats_log_event count_processed_def
        count_error_def st)
  have cac: "alarm_config counted = alarm_config self"
    by (simp add: counted_def alarm_config_log_event count_processed_def count_error_def ac)
  have eq: "store_and_check env self device_id v =
     (if equals_one (dict_get dd ''is_alarm'') then handle_alarm env counted device_id dd
      else (None, counted))"
    using PDict ins by (simp add: store_and_check_def Let_def dd_def counted_def)
  obtain r a where ha: "handle_alarm env counted device_id dd = (r, a)"
    by (cases "handle_alarm env counted device_id dd")
  have as: "stats a = stats counted"
    using handle_alarm_stats[of env counted device_id dd] ha by simp
  have aa: "alarm_config a = alarm_config self"
    using handle_alarm_alarm_config[of env counted device_id dd] ha cac by simp
  have ar: "\<not> silent_mode (alarm_config self) \<and> \<not> print_succeeds env" if "r = Some e" for e
    using handle_alarm_raises[of env counted device_id dd e] ha that cac by simp
  show ?thesis
  proof (cases "equals_one (dict_get dd ''is_alarm'')")
    case False
    then show ?thesis unfolding eq using cs cac by simp
  next
    case True
    show ?thesis
    proof (cases r)
      case None
      then show ?thesis unfolding eq using True ha as aa cs by simp
    next
      case (Some e)
      then show ?thesis unfolding eq using True ha as aa cs ar[of e] by simp
    qed
  qed
qed (simp_all add: store_and_check_def)

lemma counted_once_at_most: "counted_once a b \<Longrightarrow> counted_at_most_once a b"
  by (auto simp: counted_once_def counted_at_most_once_def)

lemma handle_message_try_stats:
  "case handle_message_try env self msg of
     (None, after) \<Rightarrow>
       counted_at_most_once (stats (count_received (now_received env) self)) (stats after)
       \<and> alarm_config after = alarm_config self
   | (Some e, after) \<Rightarrow>
       alarm_config after = alarm_config self
       \<and> (stats after = stats (count_received (now_received env) self)
          \<or> \<not> silent_mode (alarm_config self) \<and> \<not> print_succeeds env
            \<and> counted_once (stats (count_received (now_received env) self)) (stats after))"
proof (cases "decode_utf8 (msg_payload msg)")
  case (Inl x)
  then show ?thesis by (simp add: handle_message_try_def Let_def count_received_def)
next
  case (Inr decoded)
  define received where "received = count_received (now_received env) self"
  define seen where "seen = log_event DEBUG (MessageReceived (msg_topic msg) decoded) received"
  have seen_stats: "stats seen = stats received" by (simp add: seen_def stats_log_event)
  have seen_ac: "alarm_config seen = alarm_config self"
    by (simp add: seen_def received_def alarm_config_log_event count_received_def)
  show ?thesis
  proof (cases "extract_device_id (msg_topic msg)")
    case None
    with Inr show ?thesis
      by (simp add: handle_message_try_def Let_def stats_log_event alarm_config_log_event
          counted_at_most_once_def count_received_def)
  next
    case (Some device_id)
    obtain r s where pd: "parse_data seen decoded = (r, s)" by (cases "parse_data seen decoded")
    have s_stats: "stats s = stats received"
      using parse_data_stats[of seen decoded] pd seen_stats by simp
    have s_ac: "alarm_config s = alarm_config self"
      using parse_data_alarm_config[of seen decoded] pd seen_ac by simp
    have "fst (parse_data seen decoded) \<noteq> Inl e'" for e'
      by (simp add: parse_data_fst split: sum.splits)
    with pd obtain v where r: "r = Inr v" by (cases r) auto
    have sc: "case store_and_check env s device_id v of
         (None, after) \<Rightarrow>
           counted_once (stats received) (stats after) \<and> alarm_config after = alarm_config self
       | (Some e, after) \<Rightarrow>
           alarm_config after = alarm_config self
           \<and> (stats after = stats received
              \<or> \<not> silent_mode (alarm_config self) \<and> \<not> print_succeeds env
                \<and> counted_once (stats received) (stats after))"
      unfolding s_stats[symmetric] s_ac[symmetric]
      by (rule store_and_check_stats)
    have eq: "handle_message_try env self msg =
       (if device_id = [] then (None, log_event WARNING (NoDeviceId (msg_topic msg)) seen)
        else if \<not> truthy v then (None, log_event WARNING (ParseFailed decoded) s)
        else store_and_check env s device_id v)"
      using Inr Some pd r
      by (simp add: handle_message_try_def Let_def seen_def received_def)
    obtain r2 a2 where sr: "store_and_check env s device_id v = (r2, a2)"
      by (cases "store_and_check env s device_id v")
    show ?thesis
      unfolding eq received_def[symmetric]
      using sc sr seen_stats s_stats seen_ac s_ac
      by (cases r2)
        (auto simp: stats_log_event alarm_config_log_event counted_at_most_once_def
          dest: counted_once_at_most)
  qed
qed

lemma handle_message_alarm_config:
  "alarm_config (snd (handle_message env self msg)) = alarm_config self"
proof (cases "handle_message_try env self msg")
  case (Pair r after)
  then show ?thesis
    using handle_message_try_stats[where env=env and self=self and msg=msg]
    by (cases r)
      (auto simp: handle_message_def alarm_config_log_event count_error_def)
qed

lemma handle_message_received:
  "total_received (stats (snd (handle_message env self msg))) = total_received (stats self) + 1"
proof (cases "handle_message_try env self msg")
  case (Pair r after)
  then show ?thesis
    using handle_message_try_stats[where env=env and self=self and msg=msg]
    by (cases r)
      (auto simp: handle_message_def stats_log_event count_error_def count_received_def
        counted_at_most_once_def counted_once_def)
qed

lemma handle_message_monotone:
  "total_processed (stats self) \<le> total_processed (stats (snd (handle_message env self msg)))
   \<and> total_errors (stats self) \<le> total_errors (stats (snd (handle_message env self msg)))"
proof (cases "handle_message_try env self msg")
  case (Pair r after)
  then show ?thesis
    using handle_message_try_stats[where env=env and self=self and msg=msg]
    by (cases r)
      (auto simp: handle_message_def stats_log_event count_error_def count_received_def
        counted_at_most_once_def counted_once_def)
qed

lemma handle_message_stats:
  assumes "silent_mode (alarm_config self) \<or> print_succeeds env"
  shows "total_processed (stats (snd (handle_message env self msg))) = total_processed (stats self)
        \<and> total_errors (stats (snd (handle_message env self msg))) = total_errors (stats self)
      \<or> total_processed (stats (snd (handle_message env self msg))) = total_processed (stats self) + 1
        \<and> total_errors (stats (snd (handle_message env self msg))) = total_errors (stats self)
      \<or> total_processed (stats (snd (handle_message env self msg))) = total_processed (stats self)
        \<and> total_errors (stats (snd (handle_message env self msg))) = total_errors (stats self) + 1"
proof (cases "handle_message_try env self msg")
  case (Pair r after)
  show ?thesis
  proof (cases r)
    case None
    with Pair show ?thesis
      using handle_message_try_stats[where env=env and self=self and msg=msg]
      by (simp add: handle_message_def counted_at_most_once_def count_received_def)
  next
    case (Some e)
    with Pair have "isinstance_Exception e"
      using handle_message_try_raises[of env self msg e] by simp
    with Pair Some assms show ?thesis
      using handle_message_try_stats[where env=env and self=self and msg=msg]
      by (auto simp: handle_message_def count_received_def count_error_def stats_log_event)
  qed
qed

lemma deliver_step:
  "deliver self ((env, msg) # rest) = deliver (snd (handle_message env self msg)) rest"
  using handle_message_catches[of env self msg]
  by (cases "handle_message env self msg") simp

lemma deliver_invariant:
  "silent_mode (alarm_config self) \<or> print_never_fails msgs \<Longrightarrow>
   total_processed (stats self) + total_errors (stats self) \<le> total_received (stats self) \<Longrightarrow>
   total_processed (stats (snd (deliver self msgs))) + total_errors (stats (snd (deliver self msgs)))
     \<le> total_received (stats (snd (deliver self msgs)))"
proof (induction msgs arbitrary: self)
  case Nil
  then show ?case by simp
next
  case (Cons m msgs)
  obtain env msg where m: "m = (env, msg)" by (cases m)
  have quiet: "silent_mode (alarm_config self) \<or> print_succeeds env"
    using Cons.prems(1) by (auto simp: m print_never_fails_def)
  have keep: "silent_mode (alarm_config (snd (handle_message env self msg))) \<or> print_never_fails msgs"
    using Cons.prems(1) by (auto simp: m print_never_fails_def handle_message_alarm_config)
  have "total_processed (stats (snd (handle_message env self msg)))
          + total_errors (stats (snd (handle_message env self msg)))
        \<le> total_received (stats (snd (handle_message env self msg)))"
    using handle_message_stats[OF quiet, of msg] handle_message_received[of env self msg]
      Cons.prems(2)
    by auto
  then show ?case unfolding m deliver_step by (rule Cons.IH[OF keep])
qed

lemma deliver_monotone:
  "total_received (stats self) \<le> total_received (stats (snd (deliver self msgs)))
   \<and> total_processed (stats self) \<le> total_processed (stats (snd (deliver self msgs)))
   \<and> total_errors (stats self) \<le> total_errors (stats (snd (deliver self msgs)))"
proof (induction msgs arbitrary: self)
  case Nil
  then show ?case by simp
next
  case (Cons m msgs)
  obtain env msg where m: "m = (env, msg)" by (cases m)
  show ?case
    unfolding m deliver_step
    using handle_message_received[of env self msg] handle_message_monotone[of self env msg]
      Cons.IH[of "snd (handle_message env self msg)"]
    by auto
qed
text \<open>
  Claim C10, as the code has it.  The claim says that every call adds one to at most
  one of \<open>total_processed\<close> and \<open>total_errors\<close>.  The alarm is handled inside the same
  \<open>try\<close>, after the outcome of the insert was counted: with \<open>silent_mode\<close> false and a
  \<open>print()\<close> that raises, a stored message is counted as processed and then, in the
  \<open>except\<close> clause, as an error, so that from fresh counters
  \<open>total_processed + total_errors\<close> is 2 after one message.
\<close>

theorem failed_print_counts_message_twice:
  "stats (snd (handle_message ((at_time 0)\<lparr>print_succeeds := False\<rparr>)
        (init (ALARM_CONFIG\<lparr>silent_mode := False\<rparr>) 0)
        \<lparr>msg_topic = ''sleep_blanket/SB042/data'', msg_payload = ''RAW:3000, ALARM:1''\<rparr>))
   = \<lparr>total_received = 1, total_processed = 1, total_errors = 1,
      start_time = 0, last_message_time = Some 0\<rparr>"
  by code_simp

text \<open>
  Claim C10, amended.  Every call of \<open>handle_message\<close> adds exactly one to
  \<open>total_received\<close>.  When \<open>silent_mode\<close> is true (the shipped policy) or \<open>print()\<close> does
  not raise, it adds one to at most one of \<open>total_processed\<close> and \<open>total_errors\<close> (the
  pair of increments is none, processed only, or errors only); hence, from the fresh
  counters of \<open>__init__\<close>, with \<open>silent_mode\<close> true or a console that never fails,
  \<open>total_processed + total_errors \<le> total_received\<close> after every sequence of messages.
  From any state on, no counter ever goes down.
\<close>

theorem handle_message_counters:
  "total_received (stats (snd (handle_message env self msg))) = total_received (stats self) + 1
   \<and> (silent_mode (alarm_config self) \<or> print_succeeds env \<longrightarrow>
        (total_processed (stats (snd (handle_message env self msg))) - total_processed (stats self),
         total_errors (stats (snd (handle_message env self msg))) - total_errors (stats self))
        \<in> {(0, 0), (1, 0), (0, 1)})
   \<and> (silent_mode cfg \<or> print_never_fails msgs \<longrightarrow>
        total_processed (stats (snd (deliver (init cfg now) msgs)))
          + total_errors (stats (snd (deliver (init cfg now) msgs)))
        \<le> total_received (stats (snd (deliver (init cfg now) msgs))))
   \<and> total_received (stats self) \<le> total_received (stats (snd (deliver self msgs)))
   \<and> total_processed (stats self) \<le> total_processed (stats (snd (deliver self msgs)))
   \<and> total_errors (stats self) \<le> total_errors (stats (snd (deliver self msgs)))"
proof -
  have fresh: "total_processed (stats (init cfg now)) + total_errors (stats (init cfg now))
      \<le> total_received (stats (init cfg now))"
    by (simp add: init_def)
  have cfg: "alarm_config (init cfg now) = cfg" by (simp add: init_def)
  have step: "(total_processed (stats (snd (handle_message env self msg))) - total_processed (stats self),
         total_errors (stats (snd (handle_message env self msg))) - total_errors (stats self))
        \<in> {(0, 0), (1, 0), (0, 1)}"
    if "silent_mode (alarm_config self) \<or> print_succeeds env"
    using handle_message_stats[OF that, of msg] by auto
  have run: "total_processed (stats (snd (deliver (init cfg now) msgs)))
          + total_errors (stats (snd (deliver (init cfg now) msgs)))
        \<le> total_received (stats (snd (deliver (init cfg now) msgs)))"
    if "silent_mode cfg \<or> print_never_fails msgs"
    using deliver_invariant[of "init cfg now" msgs] that fresh cfg by simp
  show ?thesis
    using handle_message_received[of env self msg] step run deliver_monotone[of self msgs]
    by blast
qed

theorem handle_message_counters_witness:
  "silent_mode (alarm_config (init ALARM_CONFIG 0))
   \<and> total_received (stats (snd (handle_message (at_time 0) (init ALARM_CONFIG 0)
        \<lparr>msg_topic = ''sleep_blanket/SB042/data'', msg_payload = ''RAW:3000, ALARM:1''\<rparr>))) = 1
   \<and> (total_processed (stats (snd (handle_message (at_time 0) (init ALARM_CONFIG 0)
          \<lparr>msg_topic = ''sleep_blanket/SB042/data'', msg_payload = ''RAW:3000, ALARM:1''\<rparr>)))
        - total_processed (stats (init ALARM_CONFIG 0)),
       total_errors (stats (snd (handle_message (at_time 0) (init ALARM_CONFIG 0)
          \<lparr>msg_topic = ''sleep_blanket/SB042/data'', msg_payload = ''RAW:3000, ALARM:1''\<rparr>)))
        - total_errors (stats (init ALARM_CONFIG 0)))
      \<in> {(0, 0), (1, 0), (0, 1)}
   \<and> total_processed (stats (snd (deliver (init ALARM_CONFIG 0)
          [(at_time 0, \<lparr>msg_topic = ''sleep_blanket/SB042/data'', msg_payload = ''RAW:3000, ALARM:1''\<rparr>),
           (at_time 1, \<lparr>msg_topic = ''sleep_blanket/SB042/data'', msg_payload = ''garbage data''\<rparr>)])))
      + total_errors (stats (snd (deliver (init ALARM_CONFIG 0)
          [(at_time 0, \<lparr>msg_topic = ''sleep_blanket/SB042/data'', msg_payload = ''RAW:3000, ALARM:1''\<rparr>),
           (at_time 1, \<lparr>msg_topic = ''sleep_blanket/SB042/data'', msg_payload = ''garbage data''\<rparr>)])))
     \<le> total_received (stats (snd (deliver (init ALARM_CONFIG 0)
          [(at_time 0, \<lparr>msg_topic = ''sleep_blanket/SB042/data'', msg_payload = ''RAW:3000, ALARM:1''\<rparr>),
           (at_time 1, \<lparr>msg_topic = ''sleep_blanket/SB042/data'', msg_payload = ''garbage data''\<rparr>)])))"
proof -
  have h1: "silent_mode (alarm_config (init ALARM_CONFIG 0))"
    by (simp add: init_def ALARM_CONFIG_def)
  have h2: "silent_mode ALARM_CONFIG" by (simp add: ALARM_CONFIG_def)
  have r0: "total_received (stats (init ALARM_CONFIG 0)) = 0" by (simp add: init_def)
  show ?thesis
    using h1 h2 r0
      handle_message_counters[of "at_time 0" "init ALARM_CONFIG 0"
        "\<lparr>msg_topic = ''sleep_blanket/SB042/data'', msg_payload = ''RAW:3000, ALARM:1''\<rparr>"
        ALARM_CONFIG
        "[(at_time 0, \<lparr>msg_topic = ''sleep_blanket/SB042/data'', msg_payload = ''RAW:3000, ALARM:1''\<rparr>),
          (at_time 1, \<lparr>msg_topic = ''sleep_blanket/SB042/data'', msg_payload = ''garbage data''\<rparr>)]"
        0]
    by simp
qed
section \<open>Topic resolver\<close>

lemma str_contains_iff: "str_contains sub s \<longleftrightarrow> (\<exists>pre post. s = pre @ sub @ post)"
proof (induction s)
  case Nil
  then show ?case by auto
next
  case (Cons c cs)
  show ?case
  proof
    assume "str_contains sub (c # cs)"
    then consider "prefix sub (c # cs)" | "str_contains sub cs" by auto
    then show "\<exists>pre post. c # cs = pre @ sub @ post"
    proof cases
      case 1
      then obtain post where "c # cs = sub @ post" by (auto simp: prefix_def)
      then have "c # cs = [] @ sub @ post" by simp
      then show ?thesis by blast
    next
      case 2
      then obtain pre post where "cs = pre @ sub @ post" using Cons.IH by blast
      then have "c # cs = (c # pre) @ sub @ post" by simp
      then show ?thesis by blast
    qed
  next
    assume "\<exists>pre post. c # cs = pre @ sub @ post"
    then obtain pre post where eq: "c # cs = pre @ sub @ post" by blast
    show "str_contains sub (c # cs)"
    proof (cases pre)
      case Nil
      then have "prefix sub (c # cs)" using eq by (simp add: prefix_def)
      then show ?thesis by simp
    next
      case (Cons a pre')
      then have "cs = pre' @ sub @ post" using eq by simp
      then have "str_contains sub cs" using Cons.IH by blast
      then show ?thesis by simp
    qed
  qed
qed

lemma match_at_iff:
  "match_at s = Some seg \<longleftrightarrow>
     (\<exists>post. s = ''sleep_blanket/'' @ seg @ ''/data'' @ post \<and> seg \<noteq> [] \<and> CHR ''/'' \<notin> set seg)"
proof
  assume m: "match_at s = Some seg"
  then have p: "prefix ''sleep_blanket/'' s" by (auto simp: match_at_def split: if_splits)
  define rest where "rest = drop (length ''sleep_blanket/'') s"
  from p have s: "s = ''sleep_blanket/'' @ rest" unfolding rest_def by (auto simp: prefix_def)
  from m p have seg: "seg = takeWhile (\<lambda>c. c \<noteq> CHR ''/'') rest" and ne: "seg \<noteq> []"
    and q: "prefix ''/data'' (dropWhile (\<lambda>c. c \<noteq> CHR ''/'') rest)"
    unfolding match_at_def rest_def by (auto simp: Let_def split: if_splits)
  from q obtain post where "dropWhile (\<lambda>c. c \<noteq> CHR ''/'') rest = ''/data'' @ post"
    by (auto simp: prefix_def)
  then have "rest = seg @ ''/data'' @ post"
    using takeWhile_dropWhile_id[of "\<lambda>c. c \<noteq> CHR ''/''" rest] seg by metis
  moreover have "CHR ''/'' \<notin> set seg" using seg by (auto dest: set_takeWhileD)
  ultimately show "\<exists>post. s = ''sleep_blanket/'' @ seg @ ''/data'' @ post \<and> seg \<noteq> [] \<and> CHR ''/'' \<notin> set seg"
    using s ne by auto
next
  assume "\<exists>post. s = ''sleep_blanket/'' @ seg @ ''/data'' @ post \<and> seg \<noteq> [] \<and> CHR ''/'' \<notin> set seg"
  then obtain post where s: "s = ''sleep_blanket/'' @ seg @ ''/data'' @ post"
    and ne: "seg \<noteq> []" and ns: "CHR ''/'' \<notin> set seg" by blast
  have tw: "takeWhile (\<lambda>c. c \<noteq> CHR ''/'') (seg @ ''/data'' @ post) = seg"
    using ns by (induction seg) auto
  have dw: "dropWhile (\<lambda>c. c \<noteq> CHR ''/'') (seg @ ''/data'' @ post) = ''/data'' @ post"
    using ns by (induction seg) auto
  show "match_at s = Some seg"
    unfolding match_at_def s using ne tw dw by (simp add: Let_def)
qed

lemma re_search_None_iff:
  "re_search s = None \<longleftrightarrow>
     \<not> (\<exists>pre seg post. s = pre @ ''sleep_blanket/'' @ seg @ ''/data'' @ post \<and> seg \<noteq> [] \<and> CHR ''/'' \<notin> set seg)"
proof (induction s)
  case Nil
  show ?case by (simp add: match_at_def)
next
  case (Cons c cs)
  show ?case
  proof (cases "match_at (c # cs)")
    case (Some g)
    then obtain post where "c # cs = [] @ ''sleep_blanket/'' @ g @ ''/data'' @ post" "g \<noteq> []" "CHR ''/'' \<notin> set g"
      using match_at_iff[of "c # cs" g] by auto
    then have "\<exists>pre seg post. c # cs = pre @ ''sleep_blanket/'' @ seg @ ''/data'' @ post \<and> seg \<noteq> [] \<and> CHR ''/'' \<notin> set seg"
      by blast
    then show ?thesis using Some by simp
  next
    case None
    have "(\<exists>pre seg post. c # cs = pre @ ''sleep_blanket/'' @ seg @ ''/data'' @ post \<and> seg \<noteq> [] \<and> CHR ''/'' \<notin> set seg)
        \<longleftrightarrow> (\<exists>pre seg post. cs = pre @ ''sleep_blanket/'' @ seg @ ''/data'' @ post \<and> seg \<noteq> [] \<and> CHR ''/'' \<notin> set seg)"
      (is "?L \<longleftrightarrow> ?R")
    proof
      assume ?L
      then obtain pre seg post where eq: "c # cs = pre @ ''sleep_blanket/'' @ seg @ ''/data'' @ post"
        and ne: "seg \<noteq> []" and ns: "CHR ''/'' \<notin> set seg" by blast
      show ?R
      proof (cases pre)
        case Nil
        then have "match_at (c # cs) = Some seg" using eq ne ns match_at_iff[of "c # cs" seg] by auto
        then show ?thesis using None by simp
      next
        case (Cons a pre')
        then have "cs = pre' @ ''sleep_blanket/'' @ seg @ ''/data'' @ post" using eq by simp
        then show ?thesis using ne ns by blast
      qed
    next
      assume ?R
      then obtain pre seg post where eq: "cs = pre @ ''sleep_blanket/'' @ seg @ ''/data'' @ post"
        and ne: "seg \<noteq> []" and ns: "CHR ''/'' \<notin> set seg" by blast
      then have "c # cs = (c # pre) @ ''sleep_blanket/'' @ seg @ ''/data'' @ post" by simp
      then show ?L using ne ns by blast
    qed
    then show ?thesis using None Cons.IH by simp
  qed
qed

lemma re_search_nonempty: "re_search s = Some seg \<Longrightarrow> seg \<noteq> []"
proof (induction s)
  case Nil
  then show ?case by (simp add: match_at_def)
next
  case (Cons c cs)
  then show ?case
    using match_at_iff[of "c # cs" seg] by (auto split: option.splits)
qed

lemma extract_device_id_nonempty: "extract_device_id topic = Some device_id \<Longrightarrow> device_id \<noteq> []"
  by (auto simp: extract_device_id_def split: option.splits if_splits dest: re_search_nonempty)

text \<open>
  Claim C9, as the code has it.  The claim is about every topic that does not have the
  form \<open>sleep_blanket/{segment}/data\<close> but holds \<open>device/sleep_blanket\<close> as a substring.
  The resolver looks for the pattern with \<open>re.search\<close>, anywhere in the topic: the topic
  \<open>device/sleep_blanket/A/data\<close> does not have the form, holds the literal path, and
  resolves to the segment \<open>A\<close>, not to \<open>GENERAL_DEVICE\<close>.
\<close>

theorem pattern_inside_topic_wins:
  "\<not> topic_has_form ''device/sleep_blanket/A/data''
   \<and> \<not> prefix ''sleep_blanket/'' ''device/sleep_blanket/A/data''
   \<and> str_contains ''device/sleep_blanket'' ''device/sleep_blanket/A/data''
   \<and> extract_device_id ''device/sleep_blanket/A/data'' = Some ''A''"
  by code_simp

text \<open>
  Claim C9, amended.  A topic in which the pattern \<open>sleep_blanket/{segment}/data\<close> occurs
  nowhere (no occurrence of \<open>sleep_blanket/\<close>, a non-empty segment without \<open>/\<close>, and
  \<open>/data\<close> in a row, at any position) but which holds \<open>device/sleep_blanket\<close> as a
  substring resolves to the sentinel \<open>GENERAL_DEVICE\<close>.
\<close>

theorem general_device_by_substring:
  assumes "\<not> (\<exists>pre seg post. topic = pre @ ''sleep_blanket/'' @ seg @ ''/data'' @ post
                  \<and> seg \<noteq> [] \<and> CHR ''/'' \<notin> set seg)"
    and "\<exists>pre post. topic = pre @ ''device/sleep_blanket'' @ post"
  shows "extract_device_id topic = Some ''GENERAL_DEVICE''"
proof -
  have "re_search topic = None" using assms(1) re_search_None_iff[of topic] by blast
  moreover have "str_contains ''device/sleep_blanket'' topic"
    using assms(2) str_contains_iff[of "''device/sleep_blanket''" topic] by blast
  ultimately show ?thesis by (simp add: extract_device_id_def)
qed

theorem general_device_by_substring_witness:
  "\<not> (\<exists>pre seg post. ''device/sleep_blanket/extra'' = pre @ ''sleep_blanket/'' @ seg @ ''/data'' @ post
          \<and> seg \<noteq> [] \<and> CHR ''/'' \<notin> set seg)
   \<and> (\<exists>pre post. ''device/sleep_blanket/extra'' = pre @ ''device/sleep_blanket'' @ post)
   \<and> extract_device_id ''device/sleep_blanket/extra'' = Some ''GENERAL_DEVICE''"
proof -
  have "re_search ''device/sleep_blanket/extra'' = None" by code_simp
  then have h1: "\<not> (\<exists>pre seg post. ''device/sleep_blanket/extra'' = pre @ ''sleep_blanket/'' @ seg @ ''/data'' @ post
          \<and> seg \<noteq> [] \<and> CHR ''/'' \<notin> set seg)"
    using re_search_None_iff[of "''device/sleep_blanket/extra''"] by blast
  have "str_contains ''device/sleep_blanket'' ''device/sleep_blanket/extra''" by code_simp
  then have h2: "\<exists>pre post. ''device/sleep_blanket/extra'' = pre @ ''device/sleep_blanket'' @ post"
    using str_contains_iff[of "''device/sleep_blanket''" "''device/sleep_blanket/extra''"] by blast
  show ?thesis using h1 h2 general_device_by_substring[OF h1 h2] by blast
qed

section \<open>Alarm handling\<close>

text \<open>
  Claim C2, on the code.  The claim says that an alarm for a device is suppressed
  while the last raised alarm for it is less than \<open>device_alarm_cooldown\<close> old.  The
  policy file sets \<open>device_alarm_cooldown\<close> to 60 seconds and describes it as the
  cooldown of the device alarm, but the handler keeps no time of the last alarm and
  never reads the value: with the shipped policy a device that alarms at t = 0 and
  again at t = 30 has both alarms raised.
\<close>

theorem alarm_inside_cooldown_is_raised:
  "device_alarm_cooldown ALARM_CONFIG = 60
   \<and> raised_alarms (snd (deliver (init ALARM_CONFIG 0)
        [(at_time 0, \<lparr>msg_topic = ''sleep_blanket/SB042/data'', msg_payload = ''RAW:3000, ALARM:1''\<rparr>)]))
      = [''SB042'']
   \<and> raised_alarms (snd (deliver (init ALARM_CONFIG 0)
        [(at_time 0, \<lparr>msg_topic = ''sleep_blanket/SB042/data'', msg_payload = ''RAW:3000, ALARM:1''\<rparr>),
         (at_time 30, \<lparr>msg_topic = ''sleep_blanket/SB042/data'', msg_payload = ''RAW:3000, ALARM:1''\<rparr>)]))
      = [''SB042'', ''SB042'']"
  by code_simp

section \<open>Payloads that do not parse\<close>

lemma insert_calls_log_event: "insert_calls (log_event lvl ev self) = insert_calls self"
  by (simp add: log_event_def)

lemma device_data_log_event: "device_data (log_event lvl ev self) = device_data self"
  by (simp add: log_event_def)

lemma parse_data_device_data: "device_data (snd (parse_data self payload_text)) = device_data self"
  by (auto simp: parse_data_def log_event_def split: sum.splits)

lemma utf8_valid_ascii: "list_all (\<lambda>b. b < 128) bs \<Longrightarrow> utf8_valid bs"
  by (induction bs) auto

lemma decode_utf8_ascii: "is_ascii bs \<Longrightarrow> decode_utf8 bs = Inr bs"
proof -
  assume "is_ascii bs"
  then have "list_all (\<lambda>b. b < 128) (map of_char bs :: int list)"
    by (simp add: is_ascii_def list_all_iff)
  then show ?thesis by (simp add: decode_utf8_def utf8_valid_ascii)
qed

text \<open>
  Claim C3, as the code has it.  The claim says that a payload that matches neither
  wire format adds one to \<open>total_errors\<close>.  For \<open>garbage data\<close> on a topic that resolves,
  \<open>parse_data\<close> returns the empty dictionary, the handler logs a warning and returns:
  \<open>total_errors\<close> is 0 before and 0 after.
\<close>

theorem garbage_data_counts_no_error:
  "extract_device_id ''sleep_blanket/SB042/data'' = Some ''SB042''
   \<and> parse_data_try ''garbage data'' = Inr (PDict [])
   \<and> total_errors (stats (init ALARM_CONFIG 0)) = 0
   \<and> total_errors (stats (snd (handle_message (at_time 0) (init ALARM_CONFIG 0)
        \<lparr>msg_topic = ''sleep_blanket/SB042/data'', msg_payload = ''garbage data''\<rparr>))) = 0"
  by code_simp

text \<open>
  Claim C3, amended.  For every message whose topic resolves to a device id and whose
  payload is ASCII text that fails to parse (\<open>parse_data\<close> returns \<open>None\<close> or an empty
  record, as for \<open>garbage data\<close>), \<open>handle_message\<close> returns normally, adds one to
  \<open>total_received\<close>, leaves \<open>total_errors\<close> and \<open>total_processed\<close> unchanged and never
  calls the storage sink's insert.
\<close>

theorem unparsed_payload_is_dropped_uncounted:
  assumes "is_ascii (msg_payload msg)"
    and "extract_device_id (msg_topic msg) = Some device_id"
    and "parse_fails (msg_payload msg)"
  shows "fst (handle_message env self msg) = None
         \<and> total_received (stats (snd (handle_message env self msg))) = total_received (stats self) + 1
         \<and> total_errors (stats (snd (handle_message env self msg))) = total_errors (stats self)
         \<and> total_processed (stats (snd (handle_message env self msg))) = total_processed (stats self)
         \<and> insert_calls (snd (handle_message env self msg)) = insert_calls self
         \<and> device_data (snd (handle_message env self msg)) = device_data self"
proof -
  define decoded where "decoded = msg_payload msg"
  have dec: "decode_utf8 (msg_payload msg) = Inr decoded"
    unfolding decoded_def by (rule decode_utf8_ascii[OF assms(1)])
  define seen where "seen = log_event DEBUG (MessageReceived (msg_topic msg) decoded)
       (count_received (now_received env) self)"
  obtain r s where pd: "parse_data seen decoded = (r, s)" by (cases "parse_data seen decoded")
  have "fst (parse_data seen decoded) = (case parse_data_try decoded of Inl e \<Rightarrow> Inr PNone | Inr v \<Rightarrow> Inr v)"
    by (rule parse_data_fst)
  with assms(3) pd obtain v where r: "r = Inr v" and v: "\<not> truthy v"
    by (auto simp: parse_fails_def decoded_def split: sum.splits)
  have s1: "stats s = stats seen" using parse_data_stats[of seen decoded] pd by simp
  have s2: "insert_calls s = insert_calls seen" using parse_data_insert_calls[of seen decoded] pd by simp
  have s3: "device_data s = device_data seen" using parse_data_device_data[of seen decoded] pd by simp
  have eq: "handle_message_try env self msg = (None, log_event WARNING (ParseFailed decoded) s)"
    using dec assms(2) pd r v extract_device_id_nonempty[OF assms(2)]
    by (simp add: handle_message_try_def Let_def seen_def)
  show ?thesis
    unfolding handle_message_def eq
    by (simp add: stats_log_event insert_calls_log_event device_data_log_event s1 s2 s3 seen_def
        count_received_def)
qed

theorem unparsed_payload_is_dropped_uncounted_witness:
  "is_ascii (msg_payload \<lparr>msg_topic = ''sleep_blanket/SB042/data'', msg_payload = ''garbage data''\<rparr>)
   \<and> extract_device_id (msg_topic \<lparr>msg_topic = ''sleep_blanket/SB042/data'', msg_payload = ''garbage data''\<rparr>)
     = Some ''SB042''
   \<and> parse_fails (msg_payload \<lparr>msg_topic = ''sleep_blanket/SB042/data'', msg_payload = ''garbage data''\<rparr>)
   \<and> total_errors (stats (snd (handle_message (at_time 0) (init ALARM_CONFIG 0)
        \<lparr>msg_topic = ''sleep_blanket/SB042/data'', msg_payload = ''garbage data''\<rparr>)))
      = total_errors (stats (init ALARM_CONFIG 0))
   \<and> insert_calls (snd (handle_message (at_time 0) (init ALARM_CONFIG 0)
        \<lparr>msg_topic = ''sleep_blanket/SB042/data'', msg_payload = ''garbage data''\<rparr>))
      = insert_calls (init ALARM_CONFIG 0)"
proof -
  have h1: "is_ascii (msg_payload \<lparr>msg_topic = ''sleep_blanket/SB042/data'', msg_payload = ''garbage data''\<rparr>)"
    by code_simp
  have h2: "extract_device_id (msg_topic \<lparr>msg_topic = ''sleep_blanket/SB042/data'', msg_payload = ''garbage data''\<rparr>)
     = Some ''SB042''" by code_simp
  have h3: "parse_fails (msg_payload \<lparr>msg_topic = ''sleep_blanket/SB042/data'', msg_payload = ''garbage data''\<rparr>)"
    by code_simp
  show ?thesis
    using h1 h2 h3
      unparsed_payload_is_dropped_uncounted[OF h1 h2 h3, of "at_time 0" "init ALARM_CONFIG 0"]
    by blast
qed
section \<open>Wire format parser\<close>

text \<open>
  Claim C8, as the code has it.  The claim says that a structured payload preceded by
  white space is still decoded as the structured format.  The parser tests
  \<open>payload.startswith('{')\<close> on the payload as it is: with a leading space the payload is
  read as delimited text, where it has no recognized key, and the result is the empty
  dictionary, not the document that \<open>json.loads\<close> finds in it.
\<close>

theorem json_after_space_is_not_decoded:
  \<open>parse_data_try '' {"raw_value": 1}'' = Inr (PDict [])
   \<and> json_loads '' {"raw_value": 1}'' = Inr (PDict [(''raw_value'', PInt 1)])
   \<and> parse_data_try ''{"raw_value": 1}'' = Inr (PDict [(''raw_value'', PInt 1)])\<close>
  by code_simp

text \<open>
  Claim C8, amended.  A payload whose first character is \<open>{\<close> is decoded as a JSON
  document, and a decode failure makes \<open>parse_data\<close> return \<open>None\<close>; every other
  payload, one with white space before the \<open>{\<close> included, is read as delimited
  key-value text.
\<close>

theorem parse_data_chooses_format_by_first_character:
  "fst (parse_data self payload_text) =
     (if startswith payload_text ''{''
      then (case json_loads payload_text of Inl e \<Rightarrow> Inr PNone | Inr v \<Rightarrow> Inr v)
      else (case parse_parts [] (split payload_text '', '') of
              Inl e \<Rightarrow> Inr PNone
            | Inr d \<Rightarrow> Inr (PDict d)))"
  by (simp add: parse_data_fst parse_data_try_def split: sum.splits)

text \<open>
  Claim C4, on the code.  The claim says that an ill-formed literal such as \<open>1.2.3\<close> for
  \<open>rms\<close> makes only that field absent.  The guard in front of \<open>float(value)\<close> removes
  every dot before it tests for digits, so \<open>1.2.3\<close> passes it, \<open>float\<close> raises
  \<open>ValueError\<close>, the blanket \<open>except\<close> of \<open>parse_data\<close> returns \<open>None\<close>, and the whole
  message is dropped although \<open>RAW:1024\<close> was well-formed.
\<close>

theorem rms_with_two_dots_fails_whole_payload:
  "isdigit (remove_char CHR ''.'' ''1.2.3'')
   \<and> py_float ''1.2.3'' = Inl ValueError
   \<and> fst (parse_data (init ALARM_CONFIG 0) ''RAW:1024, RMS:1.2.3'') = Inr PNone
   \<and> fst (parse_data (init ALARM_CONFIG 0) ''RAW:1024, RMS:abc'')
      = Inr (PDict [(''raw_value'', PInt 1024), (''rms_value'', PNone)])
   \<and> insert_calls (snd (handle_message (at_time 0) (init ALARM_CONFIG 0)
        \<lparr>msg_topic = ''sleep_blanket/SB042/data'', msg_payload = ''RAW:1024, RMS:1.2.3''\<rparr>)) = []"
  by code_simp

text \<open>
  Claim C5, on the code.  The claim says that a token with an unrecognized key
  contributes nothing, also when its value is \<open>N/A\<close>, and that a payload without a
  recognized key is a parse failure.  The \<open>N/A\<close> branch comes before the keys are
  told apart and stores \<open>None\<close> under whatever key it is given: \<open>FOO:N/A\<close> yields the
  record \<open>{'foo': None}\<close>, which is not empty, so the handler stores a row for it.
  With another value the same key is ignored.
\<close>

theorem unrecognized_key_with_na_is_stored:
  "parse_data_try ''FOO:N/A'' = Inr (PDict [(''foo'', PNone)])
   \<and> parse_data_try ''FOO:1'' = Inr (PDict [])
   \<and> insert_calls (snd (handle_message (at_time 0) (init ALARM_CONFIG 0)
        \<lparr>msg_topic = ''sleep_blanket/SB042/data'', msg_payload = ''FOO:N/A''\<rparr>))
      = [(''SB042'', [(''foo'', PNone), (''timestamp'', PDatetime 0)])]
   \<and> total_processed (stats (snd (handle_message (at_time 0) (init ALARM_CONFIG 0)
        \<lparr>msg_topic = ''sleep_blanket/SB042/data'', msg_payload = ''FOO:N/A''\<rparr>))) = 1"
  by code_simp


text \<open>
  Claim C7, as the code has it.  The claim says that a \<open>RAW:N/A\<close> token leaves
  \<open>raw_value\<close> absent whatever the other tokens are.  The tokens are applied in
  order and a later one overwrites an earlier one: \<open>RAW:N/A, RAW:5\<close> is accepted with
  \<open>raw_value\<close> 5.
\<close>

theorem later_raw_token_overrides_na:
  "parse_data_try ''RAW:N/A, RAW:5'' = Inr (PDict [(''raw_value'', PInt 5)])
   \<and> parse_data_try ''RAW:N/A, STATE:x'' = Inr (PDict [(''raw_value'', PNone), (''state'', PNone)])"
  by code_simp

section \<open>The delimited format\<close>
















lemma parse_parts_append:
  "parse_parts d (xs @ ys) =
     (case parse_parts d xs of Inl e \<Rightarrow> Inl e | Inr d1 \<Rightarrow> parse_parts d1 ys)"
  by (induction xs arbitrary: d) (auto split: sum.splits)

lemma map_of_update_none:
  "map_of (AList.update k PNone d) ''raw_value'' = Some PNone"
  if "map_of d ''raw_value'' = Some PNone"
  using that by (simp add: update_conv')

lemma map_of_update_other:
  "map_of (AList.update k v d) ''raw_value'' = map_of d ''raw_value''"
  if "k \<noteq> ''raw_value''"
  using that by (simp add: update_conv')

lemma parse_part_raw_na:
  assumes "CHR '':'' \<in> set tok" and "token_key tok = ''raw''" and "token_value tok = ''N/A''"
  shows "parse_part d tok = Inr (AList.update ''raw_value'' PNone d)"
  using assms by (simp add: parse_part_def)

lemma parse_part_keeps_raw_none:
  assumes "map_of d ''raw_value'' = Some PNone"
    and "CHR '':'' \<notin> set p \<or> token_key p \<noteq> ''raw''"
    and "parse_part d p = Inr d'"
  shows "map_of d' ''raw_value'' = Some PNone"
proof (cases "CHR '':'' \<in> set p")
  case False
  with assms show ?thesis by (simp add: parse_part_def)
next
  case True
  with assms(2) have k: "token_key p \<noteq> ''raw''" by simp
  have "case parse_part d p of Inl e \<Rightarrow> True | Inr x \<Rightarrow> map_of x ''raw_value'' = Some PNone"
    unfolding parse_part_def Let_def
    using True k assms(1)
    by (simp add: map_of_update_none map_of_update_other split: sum.splits)
  with assms(3) show ?thesis by simp
qed

lemma parse_parts_keeps_raw_none:
  assumes "map_of d ''raw_value'' = Some PNone"
    and "\<forall>p\<in>set parts. CHR '':'' \<notin> set p \<or> token_key p \<noteq> ''raw''"
    and "parse_parts d parts = Inr d'"
  shows "map_of d' ''raw_value'' = Some PNone"
  using assms
proof (induction parts arbitrary: d)
  case Nil
  then show ?case by simp
next
  case (Cons p parts)
  from Cons.prems(3) obtain d1 where p1: "parse_part d p = Inr d1"
    and rest: "parse_parts d1 parts = Inr d'"
    by (auto split: sum.splits)
  have "map_of d1 ''raw_value'' = Some PNone"
    using parse_part_keeps_raw_none[OF Cons.prems(1) _ p1] Cons.prems(2) by simp
  then show ?case using Cons.IH[OF _ _ rest] Cons.prems(2) by simp
qed

text \<open>
  Claim C7, amended.  For every ASCII payload accepted by the delimited format that has a
  \<open>RAW:N/A\<close> token after which no token has the key \<open>RAW\<close> again, the resulting record
  has \<open>raw_value\<close> explicitly absent (\<open>None\<close>), whatever the other tokens are.
\<close>

theorem last_raw_token_na_leaves_raw_value_absent:
  assumes "is_ascii payload_text"
    and "\<not> startswith payload_text ''{''"
    and "parse_data_try payload_text = Inr (PDict d)"
    and "split payload_text '', '' = before @ tok # after"
    and "CHR '':'' \<in> set tok"
    and "token_key tok = ''raw''"
    and "token_value tok = ''N/A''"
    and "\<forall>p\<in>set after. CHR '':'' \<in> set p \<longrightarrow> token_key p \<noteq> ''raw''"
  shows "map_of d ''raw_value'' = Some PNone"
proof -
  from assms(2,3) have "parse_parts [] (split payload_text '', '') = Inr d"
    by (auto simp: parse_data_try_def split: sum.splits)
  then have all: "parse_parts [] (before @ tok # after) = Inr d" by (simp add: assms(4))
  then obtain d0 where d0: "parse_parts [] before = Inr d0"
    and tl: "parse_parts d0 (tok # after) = Inr d"
    by (auto simp: parse_parts_append split: sum.splits)
  have tk: "parse_part d0 tok = Inr (AList.update ''raw_value'' PNone d0)"
    by (rule parse_part_raw_na[OF assms(5,6,7)])
  with tl have rest: "parse_parts (AList.update ''raw_value'' PNone d0) after = Inr d" by simp
  have start: "map_of (AList.update ''raw_value'' PNone d0) ''raw_value'' = Some PNone"
    by (simp add: update_conv')
  have later: "\<forall>p\<in>set after. CHR '':'' \<notin> set p \<or> token_key p \<noteq> ''raw''"
    using assms(8) by blast
  show ?thesis by (rule parse_parts_keeps_raw_none[OF start later rest])
qed

theorem last_raw_token_na_leaves_raw_value_absent_witness:
  "is_ascii ''RAW:5, RAW:N/A, STATE:x, RMS:1.5''
   \<and> parse_data_try ''RAW:5, RAW:N/A, STATE:x, RMS:1.5''
     = Inr (PDict [(''raw_value'', PNone), (''state'', PNone), (''rms_value'', PFloat 15 (- 1))])
   \<and> split ''RAW:5, RAW:N/A, STATE:x, RMS:1.5'' '', '' = [''RAW:5''] @ ''RAW:N/A'' # [''STATE:x'', ''RMS:1.5'']
   \<and> token_key ''RAW:N/A'' = ''raw'' \<and> token_value ''RAW:N/A'' = ''N/A''
   \<and> token_key ''STATE:x'' \<noteq> ''raw'' \<and> token_key ''RMS:1.5'' \<noteq> ''raw''
   \<and> map_of [(''raw_value'', PNone), (''state'', PNone), (''rms_value'', PFloat 15 (- 1))] ''raw_value''
     = Some PNone"
proof -
  let ?d = "[(''raw_value'', PNone), (''state'', PNone), (''rms_value'', PFloat 15 (- 1))]"
  have h0: "is_ascii ''RAW:5, RAW:N/A, STATE:x, RMS:1.5''" by code_simp
  have h1: "\<not> startswith ''RAW:5, RAW:N/A, STATE:x, RMS:1.5'' ''{''" by code_simp
  have h2: "parse_data_try ''RAW:5, RAW:N/A, STATE:x, RMS:1.5'' = Inr (PDict ?d)" by code_simp
  have h3: "split ''RAW:5, RAW:N/A, STATE:x, RMS:1.5'' '', ''
      = [''RAW:5''] @ ''RAW:N/A'' # [''STATE:x'', ''RMS:1.5'']" by code_simp
  have h4: "CHR '':'' \<in> set ''RAW:N/A''" by simp
  have h5: "token_key ''RAW:N/A'' = ''raw''" by code_simp
  have h6: "token_value ''RAW:N/A'' = ''N/A''" by code_simp
  have k1: "token_key ''STATE:x'' \<noteq> ''raw''" by code_simp
  have k2: "token_key ''RMS:1.5'' \<noteq> ''raw''" by code_simp
  have h7: "\<forall>p\<in>set [''STATE:x'', ''RMS:1.5'']. CHR '':'' \<in> set p \<longrightarrow> token_key p \<noteq> ''raw''"
    using k1 k2 by simp
  show ?thesis
    using h0 h2 h3 h5 h6 k1 k2 last_raw_token_na_leaves_raw_value_absent[OF h0 h1 h2 h3 h4 h5 h6 h7]
    by simp
qed

section \<open>The handler on sample traffic\<close>

text \<open>
  A well-formed delimited message is resolved, parsed, stored once and counted as
  processed, and no alarm is evaluated; a payload that is not UTF-8 is counted as an
  error and nothing is stored.
\<close>

lemma well_formed_message_is_stored:
  "handle_message (at_time 5) (init ALARM_CONFIG 0)
     \<lparr>msg_topic = ''sleep_blanket/SB042/data'',
      msg_payload = ''RAW:3000, RMS:1800.50, TH:2000.00, STATE:1, MOVE:5, CONNECTED:1, ALARM:0''\<rparr>
   = (None,
      \<lparr>alarm_config = ALARM_CONFIG,
       stats = \<lparr>total_received = 1, total_processed = 1, total_errors = 0,
                start_time = 0, last_message_time = Some 5\<rparr>,
       logged =
         [(DEBUG, MessageReceived ''sleep_blanket/SB042/data''
                    ''RAW:3000, RMS:1800.50, TH:2000.00, STATE:1, MOVE:5, CONNECTED:1, ALARM:0''),
          (DEBUG, RowSaved ''SB042''),
          (DEBUG, DataStored ''SB042'')],
       console = [],
       insert_calls =
         [(''SB042'',
           [(''raw_value'', PInt 3000), (''rms_value'', PFloat 180050 (- 2)),
            (''threshold_value'', PFloat 200000 (- 2)), (''state'', PInt 1),
            (''movement_count'', PInt 5), (''is_connected'', PInt 1), (''is_alarm'', PInt 0),
            (''timestamp'', PDatetime 5)])],
       device_data =
         [\<lparr>col_device_id = ''SB042'', col_raw_value = PInt 3000,
           col_rms_value = PFloat 180050 (- 2), col_threshold_value = PFloat 200000 (- 2),
           col_state = PInt 1, col_movement_count = PInt 5, col_is_connected = PInt 1,
           col_is_alarm = PInt 0, col_timestamp = PDatetime 5\<rparr>]\<rparr>)"
  by code_simp

lemma undecodable_payload_is_an_error:
  "handle_message (at_time 5) (init ALARM_CONFIG 0)
     \<lparr>msg_topic = ''sleep_blanket/SB042/data'', msg_payload = [CHR 0xFF, CHR 0xFE]\<rparr>
   = (None,
      \<lparr>alarm_config = ALARM_CONFIG,
       stats = \<lparr>total_received = 1, total_processed = 0, total_errors = 1,
                start_time = 0, last_message_time = Some 5\<rparr>,
       logged = [(ERROR, HandleFailed UnicodeDecodeError)],
       console = [],
       insert_calls = [],
       device_data = []\<rparr>)"
  by code_simp

end
